theory Spec2Isabelle
  imports Main "HOL-Library.Sublist"
begin

section \<open>pvw: the lsof parser, the formatter and the controller of main.go\<close>

text \<open>
  A shallow embedding of \<^verbatim>\<open>main.go\<close>. Go strings are byte sequences and are modelled
  as \<^typ>\<open>string\<close>; Go's \<^verbatim>\<open>int\<close> is modelled as \<^typ>\<open>int\<close> (the only place where its
  64-bit range matters is \<^verbatim>\<open>strconv.Atoi\<close>, where the range check is written out).
  A function of the source that returns \<^verbatim>\<open>(value, error)\<close> returns a sum here, and
  a run-time panic (an index or a slice bound out of range) is the error value \<open>Panic\<close>.
  The external commands (\<^verbatim>\<open>lsof\<close>, \<^verbatim>\<open>kill\<close>) are not run: what they returned is a
  parameter of the function that calls them.
\<close>

subsection \<open>Errors\<close>

text \<open>
  What \<^verbatim>\<open>cmd.Output()\<close> of os/exec can return as its error: an \<^verbatim>\<open>*exec.ExitError\<close> for a
  command that ran and exited with a nonzero status (its \<^verbatim>\<open>Error()\<close> is the text
  \<^verbatim>\<open>exit status N\<close>), or any other failure, kept as its message.
\<close>

datatype cmd_error = ExitError nat | OtherError string

datatype error = Panic | CmdError cmd_error | NumError string

definition andThen :: "error + 'a \<Rightarrow> ('a \<Rightarrow> error + 'b) \<Rightarrow> error + 'b" where
  "andThen m f = (case m of Inl e \<Rightarrow> Inl e | Inr x \<Rightarrow> f x)"

subsection \<open>Go's indexing and slicing, with their bounds checks\<close>

definition index :: "'a list \<Rightarrow> nat \<Rightarrow> error + 'a" where
  \<comment> \<open>\<^verbatim>\<open>xs[i]\<close>\<close>
  "index xs i = (if i < length xs then Inr (xs ! i) else Inl Panic)"

definition slice_from :: "'a list \<Rightarrow> nat \<Rightarrow> error + 'a list" where
  \<comment> \<open>\<^verbatim>\<open>xs[lo:]\<close>\<close>
  "slice_from xs lo = (if lo \<le> length xs then Inr (drop lo xs) else Inl Panic)"

definition slice :: "'a list \<Rightarrow> nat \<Rightarrow> nat \<Rightarrow> error + 'a list" where
  \<comment> \<open>\<^verbatim>\<open>xs[lo:hi]\<close>\<close>
  "slice xs lo hi =
     (if lo \<le> hi \<and> hi \<le> length xs then Inr (take (hi - lo) (drop lo xs)) else Inl Panic)"

subsection \<open>The library functions the source calls\<close>

abbreviation NL :: char where
  "NL \<equiv> CHR 0x0A"

text \<open>
  \<^verbatim>\<open>strings.Split(s, sep)\<close> for a non-empty separator: the pieces between the
  occurrences of \<open>sep\<close>, found from left to right without overlap; always at least one
  piece. The source only passes non-empty literals; for an empty separator (where Go
  splits into UTF-8 sequences) this function returns the text in one piece.
\<close>

fun Split :: "string \<Rightarrow> string \<Rightarrow> string list" where
  "Split [] sep = [[]]"
| "Split (c # s) sep =
     (if sep \<noteq> [] \<and> prefix sep (c # s)
      then [] # Split (drop (length sep) (c # s)) sep
      else (let r = Split s sep in (c # hd r) # tl r))"

definition Contains :: "'a list \<Rightarrow> 'a \<Rightarrow> bool" where
  \<comment> \<open>\<^verbatim>\<open>slices.Contains\<close>\<close>
  "Contains xs v = (v \<in> set xs)"

definition digit :: "nat \<Rightarrow> char" where
  "digit d = ''0123456789'' ! (d mod 10)"

fun nat_digits :: "nat \<Rightarrow> string" where
  "nat_digits n = (if n < 10 then [digit n] else nat_digits (n div 10) @ [digit (n mod 10)])"

declare nat_digits.simps [simp del]

definition Itoa :: "int \<Rightarrow> string" where
  \<comment> \<open>\<^verbatim>\<open>strconv.Itoa\<close>\<close>
  "Itoa i = (if i < 0 then CHR ''-'' # nat_digits (nat (- i)) else nat_digits (nat i))"

definition is_digit :: "char \<Rightarrow> bool" where
  "is_digit c = (c \<in> set ''0123456789'')"

definition digit_val :: "char \<Rightarrow> int" where
  "digit_val c = int (length (takeWhile (\<lambda>d. d \<noteq> c) ''0123456789''))"

definition digits_val :: "string \<Rightarrow> int" where
  "digits_val ds = foldl (\<lambda>n ch. n * 10 + digit_val ch) 0 ds"

text \<open>
  \<^verbatim>\<open>strconv.Atoi\<close> on a 64-bit platform: an optional sign, then one or more decimal
  digits, and a value that fits a signed 64-bit integer. Every failure is a
  \<^verbatim>\<open>*strconv.NumError\<close>, which keeps the text that was parsed (its kind, syntax or
  range, is left out).
\<close>

definition Atoi :: "string \<Rightarrow> error + int" where
  "Atoi s =
     (let signed = (s \<noteq> [] \<and> (hd s = CHR ''-'' \<or> hd s = CHR ''+''));
          ds = (if signed then tl s else s)
      in if ds = [] \<or> \<not> list_all is_digit ds then Inl (NumError s)
         else (let n = digits_val ds;
                   v = (if s \<noteq> [] \<and> hd s = CHR ''-'' then - n else n)
               in if - (2 ^ 63) \<le> v \<and> v < 2 ^ 63 then Inr v else Inl (NumError s)))"

fun cmd_Error :: "cmd_error \<Rightarrow> string" where
  \<comment> \<open>the \<^verbatim>\<open>Error()\<close> method of what os/exec returns\<close>
  "cmd_Error (ExitError code) = ''exit status '' @ Itoa (int code)"
| "cmd_Error (OtherError text) = text"

subsection \<open>Important structs\<close>

record connection =
  protocol :: string
  status :: string
  remotePort :: string
  remoteAddress :: string
  localPort :: string
  localAddress :: string

record process =
  id_proc :: int
  name :: string
  directory :: string
  connections :: "connection list"
  username :: string

record column =
  Title :: string
  Width :: int

record settings =
  readOnly :: bool
  showClosed :: bool
  listenOnly :: bool
  getCwd_flag :: bool
  columns :: "column list"
  portFilter :: "string list"
  nameFilter :: "string list"

definition connection0 :: connection where
  \<comment> \<open>\<^verbatim>\<open>connection{}\<close>, the zero value\<close>
  "connection0 = \<lparr>protocol = [], status = [], remotePort = [], remoteAddress = [],
     localPort = [], localAddress = []\<rparr>"

subsection \<open>getCwd\<close>

text \<open>
  \<open>run\<close> is the outcome of \<^verbatim>\<open>lsof -p PID -F n\<close> for the PID text it is given: the error
  of \<^verbatim>\<open>cmd.Output()\<close> or the bytes the command printed.
\<close>

definition getCwd :: "(string \<Rightarrow> cmd_error + string) \<Rightarrow> int \<Rightarrow> error + string" where
  "getCwd run pid =
     (let pidString = Itoa pid in
      case run pidString of
        Inl err \<Rightarrow> Inl (CmdError err)
      | Inr out \<Rightarrow>
          (let cwdSplit = Split out (''fcwd'' @ [NL] @ ''n'') in
           if length cwdSplit < 1 then Inr []
           else andThen (index cwdSplit 1) (\<lambda>rest. index (Split rest [NL]) 0)))"

subsection \<open>parseLsof\<close>

definition portCheck :: "settings \<Rightarrow> connection \<Rightarrow> bool \<Rightarrow> bool" where
  \<comment> \<open>lines 384 to 391: the new value of \<open>valid\<close>\<close>
  "portCheck options tmpConnection valid =
     (if length (portFilter options) > 0 then
        (if \<not> (Contains (portFilter options) (localPort tmpConnection) \<or>
                Contains (portFilter options) (remotePort tmpConnection))
         then False else valid)
      else valid)"

definition parseAddress ::
  "settings \<Rightarrow> string \<Rightarrow> bool \<times> connection \<Rightarrow> error + bool \<times> connection" where
  \<comment> \<open>the body of \<^verbatim>\<open>case "n"\<close>, for the text after the tag\<close>
  "parseAddress options addr st =
     (case st of (valid, tmpConnection) \<Rightarrow>
        if addr = ''*:*'' then Inr (False, tmpConnection)
        else
          (let splitLocalAndRemote = Split addr ''->'' in
           andThen
             (if length splitLocalAndRemote > 1 then
                andThen (index splitLocalAndRemote 0) (\<lambda>l.
                andThen (index splitLocalAndRemote 1) (\<lambda>r.
                  (let splitLocalAddressAndPort = Split l '':'';
                       splitRemoteAddressAndPort = Split r '':'' in
                   andThen (index splitLocalAddressAndPort 0) (\<lambda>la.
                   andThen (index splitLocalAddressAndPort 1) (\<lambda>lp.
                   andThen (index splitRemoteAddressAndPort 0) (\<lambda>ra.
                   andThen (index splitRemoteAddressAndPort 1) (\<lambda>rp.
                     Inr (tmpConnection\<lparr>localAddress := la, localPort := lp,
                            remoteAddress := ra, remotePort := rp\<rparr>))))))))
              else
                andThen (index splitLocalAndRemote 0) (\<lambda>l.
                  (let splitLocalAddressAndPort = Split l '':'' in
                   andThen (index splitLocalAddressAndPort 0) (\<lambda>la.
                   andThen (index splitLocalAddressAndPort 1) (\<lambda>lp.
                     Inr (tmpConnection\<lparr>localAddress := la, localPort := lp\<rparr>))))))
             (\<lambda>tmp. Inr (portCheck options tmp valid, tmp))))"

definition parseStatus :: "settings \<Rightarrow> string \<Rightarrow> bool \<times> connection \<Rightarrow> bool \<times> connection" where
  \<comment> \<open>lines 401 to 410, for the text after \<^verbatim>\<open>TST=\<close>\<close>
  "parseStatus options st_text st =
     (case st of (valid, tmpConnection) \<Rightarrow>
        (let tmp = tmpConnection\<lparr>status := st_text\<rparr>;
             valid1 = (if st_text = ''CLOSED'' \<and> showClosed options then False else valid);
             valid2 = (if listenOnly options \<and> st_text \<noteq> ''LISTEN'' then False else valid1)
         in (valid2, tmp)))"

definition parseProperty ::
  "settings \<Rightarrow> string \<Rightarrow> bool \<times> connection \<Rightarrow> error + bool \<times> connection" where
  \<comment> \<open>one round of the loop over \<^verbatim>\<open>connectionInfo\<close>\<close>
  "parseProperty options connectionProperty st =
     (if length connectionProperty > 0 then
        (if hd connectionProperty = CHR ''P'' then
           andThen (slice_from connectionProperty 1) (\<lambda>v.
             Inr (fst st, (snd st)\<lparr>protocol := v\<rparr>))
         else if hd connectionProperty = CHR ''n'' then
           andThen (slice_from connectionProperty 1) (\<lambda>addr. parseAddress options addr st)
         else if hd connectionProperty = CHR ''T'' then
           andThen (slice connectionProperty 0 4) (\<lambda>tag.
             if tag = ''TST='' then
               andThen (slice_from connectionProperty 4) (\<lambda>v. Inr (parseStatus options v st))
             else Inr st)
         else Inr st)
      else Inr st)"

fun parseProperties ::
  "settings \<Rightarrow> string list \<Rightarrow> bool \<times> connection \<Rightarrow> error + bool \<times> connection" where
  "parseProperties options [] st = Inr st"
| "parseProperties options (connectionProperty # rest) st =
     andThen (parseProperty options connectionProperty st)
       (\<lambda>st'. parseProperties options rest st')"

definition parseConnection :: "settings \<Rightarrow> string \<Rightarrow> error + bool \<times> connection" where
  \<comment> \<open>one round of the loop over \<^verbatim>\<open>connectionSplit[1:]\<close>, up to the test of \<open>valid\<close>\<close>
  "parseConnection options connectionString =
     parseProperties options (Split connectionString [NL]) (True, connection0)"

fun parseConnections ::
  "settings \<Rightarrow> string list \<Rightarrow> connection list \<Rightarrow> error + connection list" where
  "parseConnections options [] allConnections = Inr allConnections"
| "parseConnections options (connectionString # rest) allConnections =
     andThen (parseConnection options connectionString) (\<lambda>r.
       parseConnections options rest
         (if fst r then allConnections @ [snd r] else allConnections))"

definition stripFirst :: "nat \<Rightarrow> string list \<Rightarrow> error + string list" where
  \<comment> \<open>lines 291 to 294: the first block still starts with the \<^verbatim>\<open>p\<close> of its PID line\<close>
  "stripFirst processIndex processInfo =
     (if processIndex = 0 then
        andThen (index processInfo 0) (\<lambda>first.
        andThen (slice_from first 1) (\<lambda>first'. Inr (processInfo[0 := first'])))
      else Inr processInfo)"

definition buildProcess ::
  "settings \<Rightarrow> string list \<Rightarrow> string list \<Rightarrow> int \<Rightarrow> string \<Rightarrow> string
     \<Rightarrow> error + process option" where
  \<comment> \<open>lines 316 to 440, the body of the name filter's \<^verbatim>\<open>if\<close>\<close>
  "buildProcess options connectionSplit processInfo pid cmd finalCwd =
     andThen (index processInfo 2) (\<lambda>userLine.
     andThen (slice_from userLine 1) (\<lambda>user.
     andThen (slice_from connectionSplit 1) (\<lambda>segments.
     andThen (parseConnections options segments []) (\<lambda>allConnections.
       if length allConnections > 0 then
         Inr (Some \<lparr>id_proc = pid, name = cmd, directory = finalCwd,
                    connections = allConnections, username = user\<rparr>)
       else Inr None))))"

definition parseProcess ::
  "(string \<Rightarrow> cmd_error + string) \<Rightarrow> settings \<Rightarrow> nat \<Rightarrow> string \<Rightarrow> error + process option" where
  \<comment> \<open>one round of the loop over \<^verbatim>\<open>separated\<close>: the process to append, if any\<close>
  "parseProcess run options processIndex processString =
     (let connectionSplit = Split processString [NL, CHR ''f''] in
      andThen (index connectionSplit 0) (\<lambda>header.
      andThen (stripFirst processIndex (Split header [NL])) (\<lambda>processInfo.
      andThen (index processInfo 0) (\<lambda>pidText.
      andThen (Atoi pidText) (\<lambda>pid.
      andThen (if getCwd_flag options then getCwd run pid else Inr []) (\<lambda>finalCwd.
      andThen (index processInfo 1) (\<lambda>cmdLine.
      andThen (slice_from cmdLine 1) (\<lambda>cmd.
        if \<not> (length (nameFilter options) > 0) \<or> Contains (nameFilter options) cmd then
          buildProcess options connectionSplit processInfo pid cmd finalCwd
        else Inr None))))))))"

fun parseProcesses ::
  "(string \<Rightarrow> cmd_error + string) \<Rightarrow> settings \<Rightarrow> nat \<Rightarrow> string list \<Rightarrow> process list
     \<Rightarrow> error + process list" where
  "parseProcesses run options processIndex [] allProcesses = Inr allProcesses"
| "parseProcesses run options processIndex (processString # rest) allProcesses =
     andThen (parseProcess run options processIndex processString) (\<lambda>r.
       parseProcesses run options (processIndex + 1) rest
         (case r of None \<Rightarrow> allProcesses | Some p \<Rightarrow> allProcesses @ [p]))"

definition parseLsof ::
  "(string \<Rightarrow> cmd_error + string) \<Rightarrow> string \<Rightarrow> settings \<Rightarrow> error + process list" where
  "parseLsof run raw options =
     (let separated = Split raw [NL, CHR ''p''] in
      parseProcesses run options 0 separated [])"

subsection \<open>formatLsof\<close>

type_synonym row = "string list"

text \<open>
  The value of one cell: the \<^verbatim>\<open>switch column.Title\<close> of the source. \<open>ToTitle\<close> stands
  for \<^verbatim>\<open>strings.ToTitle\<close>, a function of Go's library.
\<close>

definition columnValue ::
  "(string \<Rightarrow> string) \<Rightarrow> process \<Rightarrow> nat \<Rightarrow> connection \<Rightarrow> string \<Rightarrow> string" where
  "columnValue ToTitle proc connIndex conn title =
     (if title = ''PID'' then (if connIndex = 0 then Itoa (id_proc proc) else [])
      else if title = ''Name'' then (if connIndex = 0 then name proc else [])
      else if title = ''Directory'' then (if connIndex = 0 then directory proc else [])
      else if title = ''Owner'' then (if connIndex = 0 then username proc else [])
      else if title = ''Protocol'' then protocol conn
      else if title = ''Address'' then
        (if remoteAddress conn \<noteq> [] then remoteAddress conn else localAddress conn)
      else if title = ''Port'' then
        (if remotePort conn \<noteq> [] then remotePort conn else localPort conn)
      else if title = ''Local Address'' then localAddress conn
      else if title = ''Local Port'' then localPort conn
      else if title = ''Remote Address'' then remoteAddress conn
      else if title = ''Remote Port'' then remotePort conn
      else if title = ''Status'' then ToTitle (status conn)
      else [])"

definition formatRow ::
  "(string \<Rightarrow> string) \<Rightarrow> column list \<Rightarrow> process \<Rightarrow> nat \<Rightarrow> connection \<Rightarrow> row" where
  "formatRow ToTitle cols proc connIndex conn =
     map (\<lambda>column. columnValue ToTitle proc connIndex conn (Title column)) cols"

fun formatConnections ::
  "(string \<Rightarrow> string) \<Rightarrow> column list \<Rightarrow> process \<Rightarrow> nat \<Rightarrow> connection list \<Rightarrow> row list
     \<Rightarrow> row list" where
  "formatConnections ToTitle cols proc connIndex [] rows = rows"
| "formatConnections ToTitle cols proc connIndex (conn # rest) rows =
     formatConnections ToTitle cols proc (connIndex + 1) rest
       (rows @ [formatRow ToTitle cols proc connIndex conn])"

fun formatProcesses ::
  "(string \<Rightarrow> string) \<Rightarrow> column list \<Rightarrow> process list \<Rightarrow> row list \<Rightarrow> int list
     \<Rightarrow> row list \<times> int list" where
  "formatProcesses ToTitle cols [] rows rowStarts = (rows, rowStarts)"
| "formatProcesses ToTitle cols (proc # rest) rows rowStarts =
     formatProcesses ToTitle cols rest
       (formatConnections ToTitle cols proc 0 (connections proc) rows)
       (rowStarts @ [int (length rows)])"

definition formatLsof ::
  "(string \<Rightarrow> string) \<Rightarrow> process list \<Rightarrow> settings \<Rightarrow> row list \<times> int list" where
  \<comment> \<open>the third result of the source, the error, is always \<^verbatim>\<open>nil\<close>\<close>
  "formatLsof ToTitle processes options = formatProcesses ToTitle (columns options) processes [] []"

subsection \<open>Messages and commands\<close>

datatype msg =
    ProcessesMsg "process list" "row list" "int list"
  | ErrMsg error
  | TerminateMsg
  | WindowSizeMsg int int
  | KeyMsg string
  | OtherMsg

text \<open>
  A \<^verbatim>\<open>tea.Cmd\<close> is kept as the call that built it: the controller only returns commands,
  the runtime runs them.
\<close>

datatype cmd =
    NoCmd
  | CheckProcesses settings
  | TerminateProcess int
  | Quit
  | TableCmd

subsection \<open>checkProcesses and getLsof\<close>

definition getLsof :: "cmd_error + string \<Rightarrow> cmd_error + string" where
  \<comment> \<open>the argument is what \<^verbatim>\<open>cmd.Output()\<close> returned for \<^verbatim>\<open>lsof -i -Pn -F cPnpLT\<close>\<close>
  "getLsof output = (case output of Inl err \<Rightarrow> Inl err | Inr out \<Rightarrow> Inr out)"

text \<open>
  The message the command of \<^verbatim>\<open>checkProcesses\<close> delivers; \<open>Inl Panic\<close> when the
  goroutine panics inside \<^verbatim>\<open>parseLsof\<close>.
\<close>

definition checkProcesses ::
  "cmd_error + string \<Rightarrow> (string \<Rightarrow> cmd_error + string) \<Rightarrow> (string \<Rightarrow> string) \<Rightarrow> settings
     \<Rightarrow> error + msg" where
  "checkProcesses output run ToTitle settingsInfo =
     (case getLsof output of
        Inl err \<Rightarrow>
          (if \<not> (cmd_Error err = ''1'') then Inr (ProcessesMsg [] [] [])
           else Inr (ErrMsg (CmdError err)))
      | Inr out \<Rightarrow>
          (case parseLsof run out settingsInfo of
             Inl Panic \<Rightarrow> Inl Panic
           | Inl err \<Rightarrow> Inr (ErrMsg err)
           | Inr parsed \<Rightarrow>
               (case formatLsof ToTitle parsed settingsInfo of
                  (formatted, ends) \<Rightarrow> Inr (ProcessesMsg parsed formatted ends))))"

subsection \<open>The model and its Update\<close>

text \<open>
  The table and the help bubble belong to the bubbles library: of the table the
  controller uses the rows it sets and the cursor it reads, of the help bubble two
  fields. A key binding is the list of its keys (none is ever disabled), and a key
  message is the text of the key.
\<close>

record table_Model =
  rows :: "row list"
  cursor :: int

record help_Model =
  help_Width :: int
  ShowAll :: bool

record keyMap =
  Up :: "string list"
  Down :: "string list"
  Terminate :: "string list"
  Refresh :: "string list"
  Help :: "string list"
  Quit_key :: "string list"

definition keys :: keyMap where
  "keys = \<lparr>Up = [''up'', ''k''], Down = [''down'', ''j''], Terminate = [''t''],
     Refresh = [''r''], Help = [''?''], Quit_key = [''q'', ''ctrl+c'']\<rparr>"

definition Matches :: "string \<Rightarrow> string list \<Rightarrow> bool" where
  \<comment> \<open>\<^verbatim>\<open>key.Matches\<close>\<close>
  "Matches k binding = (k \<in> set binding)"

record model =
  table :: table_Model
  rowStarts :: "int list"
  processes :: "process list"
  err :: "error option"
  settings :: settings
  m_keys :: keyMap
  help_bubble :: help_Model

definition SetRows :: "row list \<Rightarrow> table_Model \<Rightarrow> table_Model" where
  "SetRows r t = t\<lparr>rows := r\<rparr>"

text \<open>The loop of lines 617 to 625: the command it returns, \<open>NoCmd\<close> when it runs out.\<close>

function terminateLoop :: "nat \<Rightarrow> int \<Rightarrow> process list \<Rightarrow> cmd" where
  "terminateLoop i cur ps =
     (if i < length ps then
        (if int i \<ge> cur then TerminateProcess (id_proc (ps ! i))
         else terminateLoop (i + 1) cur ps)
      else NoCmd)"
  by pat_completeness auto
termination
  by (relation "measure (\<lambda>(i, cur, ps). length ps - i)") auto

declare terminateLoop.simps [simp del]

text \<open>
  \<open>tableUpdate\<close> is \<^verbatim>\<open>table.Model.Update\<close> of the library, which the source calls for
  every message it has not answered itself.
\<close>

definition Update ::
  "(msg \<Rightarrow> table_Model \<Rightarrow> table_Model \<times> cmd) \<Rightarrow> model \<Rightarrow> msg \<Rightarrow> model \<times> cmd" where
  "Update tableUpdate m message =
     (let rest = (\<lambda>m'. (case tableUpdate message (table m') of
                           (t, c) \<Rightarrow> (m'\<lparr>table := t\<rparr>, c)))
      in case message of
        ProcessesMsg ps rs ends \<Rightarrow>
          (m\<lparr>table := SetRows rs (table m), rowStarts := ends, processes := ps\<rparr>, NoCmd)
      | TerminateMsg \<Rightarrow> (m, CheckProcesses (settings m))
      | ErrMsg e \<Rightarrow> (m\<lparr>err := Some e\<rparr>, NoCmd)
      | WindowSizeMsg w h \<Rightarrow> rest (m\<lparr>help_bubble := (help_bubble m)\<lparr>help_Width := w\<rparr>\<rparr>)
      | KeyMsg k \<Rightarrow>
          (if Matches k (Refresh (m_keys m)) then (m, CheckProcesses (settings m))
           else if Matches k (Terminate keys) then
             (if length (processes m) > 0 then
                (m, terminateLoop 0 (cursor (table m)) (processes m))
              else (m, NoCmd))
           else if Matches k (Help keys) then
             rest (m\<lparr>help_bubble := (help_bubble m)\<lparr>ShowAll := \<not> ShowAll (help_bubble m)\<rparr>\<rparr>)
           else if Matches k (Quit_key keys) then (m, Quit)
           else rest m)
      | OtherMsg \<Rightarrow> rest m)"

subsection \<open>Row counts and example inputs\<close>

definition rowsBefore :: "process list \<Rightarrow> nat \<Rightarrow> nat" where
  \<comment> \<open>the rows of the first \<open>i\<close> processes, one per connection\<close>
  "rowsBefore ps i = sum_list (map (\<lambda>p. length (connections p)) (take i ps))"

definition default_settings :: settings where
  \<comment> \<open>what \<^verbatim>\<open>main\<close> builds when no flag is given\<close>
  "default_settings = \<lparr>readOnly = False, showClosed = False, listenOnly = False,
     getCwd_flag = False,
     columns = [\<lparr>Title = ''PID'', Width = 5\<rparr>, \<lparr>Title = ''Port'', Width = 5\<rparr>,
                \<lparr>Title = ''Status'', Width = 11\<rparr>],
     portFilter = [], nameFilter = []\<rparr>"

definition example_raw :: string where
  "example_raw = ''p123'' @ [NL] @ ''cbash'' @ [NL] @ ''Lally'' @ [NL] @ ''ftcp'' @ [NL] @
     ''PTCP'' @ [NL] @ ''n127.0.0.1:22->10.0.0.5:5555'' @ [NL] @ ''TST=ESTABLISHED''"

definition example_process :: process where
  "example_process = \<lparr>id_proc = 123, name = ''bash'', directory = [],
     connections = [\<lparr>protocol = ''TCP'', status = ''ESTABLISHED'', remotePort = ''5555'',
       remoteAddress = ''10.0.0.5'', localPort = ''22'', localAddress = ''127.0.0.1''\<rparr>],
     username = ''ally''\<rparr>"

definition listening :: "string \<Rightarrow> connection" where
  "listening port = \<lparr>protocol = ''TCP'', status = ''LISTEN'', remotePort = [],
     remoteAddress = [], localPort = port, localAddress = ''*''\<rparr>"

definition two_processes :: "process list" where
  "two_processes =
     [\<lparr>id_proc = 10, name = ''nginx'', directory = [],
        connections = [listening ''80'', listening ''443''], username = ''root''\<rparr>,
      \<lparr>id_proc = 20, name = ''sshd'', directory = [],
        connections = [listening ''22''], username = ''root''\<rparr>]"

definition model0 :: model where
  \<comment> \<open>the model \<^verbatim>\<open>main\<close> starts the program with\<close>
  "model0 = \<lparr>table = \<lparr>rows = [], cursor = 0\<rparr>, rowStarts = [], processes = [], err = None,
     settings = default_settings, m_keys = keys,
     help_bubble = \<lparr>help_Width = 0, ShowAll = False\<rparr>\<rparr>"

definition loaded_model :: "settings \<Rightarrow> int \<Rightarrow> model" where
  \<comment> \<open>the model after the rows of \<open>two_processes\<close> have arrived, with the cursor on a row\<close>
  "loaded_model s cur =
     (case formatLsof (\<lambda>t. t) two_processes s of
        (rs, ends) \<Rightarrow>
          (let m = fst (Update (\<lambda>_ t. (t, NoCmd)) (model0\<lparr>settings := s\<rparr>)
                     (ProcessesMsg two_processes rs ends))
           in m\<lparr>table := (table m)\<lparr>cursor := cur\<rparr>\<rparr>))"

subsection \<open>Connection segments of a raw text\<close>

definition isAddressLine :: "string \<Rightarrow> bool" where
  \<comment> \<open>a field line that \<^verbatim>\<open>case "n"\<close> handles\<close>
  "isAddressLine l = (l \<noteq> [] \<and> hd l = CHR ''n'')"

definition hasAddress :: "string \<Rightarrow> bool" where
  "hasAddress connectionString = list_ex isAddressLine (Split connectionString [NL])"

definition connectionStrings :: "string \<Rightarrow> string list" where
  \<comment> \<open>every \<^verbatim>\<open>connectionString\<close> the two loops of \<^verbatim>\<open>parseLsof\<close> can reach\<close>
  "connectionStrings raw =
     concat (map (\<lambda>processString. drop 1 (Split processString [NL, CHR ''f'']))
       (Split raw [NL, CHR ''p'']))"

definition portAllowed :: "settings \<Rightarrow> connection \<Rightarrow> bool" where
  "portAllowed options c =
     (localPort c \<in> set (portFilter options) \<or> remotePort c \<in> set (portFilter options))"

definition untested :: "settings \<Rightarrow> string list \<Rightarrow> connection \<Rightarrow> bool" where
  \<comment> \<open>the valid connection of a segment that has no address line\<close>
  "untested options segments c =
     list_ex (\<lambda>connectionString. \<not> hasAddress connectionString \<and>
                parseConnection options connectionString = Inr (True, c)) segments"

definition no_address_raw :: string where
  "no_address_raw = ''p1'' @ [NL] @ ''cnc'' @ [NL] @ ''Lroot'' @ [NL] @ ''f3'' @ [NL] @ ''PTCP''"

definition closed_raw :: string where
  "closed_raw = ''p1'' @ [NL] @ ''cnc'' @ [NL] @ ''Lroot'' @ [NL] @ ''f3'' @ [NL] @ ''PTCP'' @
     [NL] @ ''n127.0.0.1:8080'' @ [NL] @ ''TST=CLOSED''"

definition no_port_raw :: string where
  "no_port_raw = ''p1'' @ [NL] @ ''cnc'' @ [NL] @ ''Lroot'' @ [NL] @ ''f3'' @ [NL] @ ''PTCP'' @
     [NL] @ ''nlocalhost''"

definition no_cwd_output :: string where
  \<comment> \<open>an output of \<^verbatim>\<open>lsof -p 42 -F n\<close> with no \<^verbatim>\<open>fcwd\<close> field\<close>
  "no_cwd_output = ''p42'' @ [NL] @ ''ftxt'' @ [NL] @ ''n/usr/bin/nc'' @ [NL]"

section \<open>Properties\<close>

subsection \<open>Helper lemmas\<close>

lemma andThen_Inr_iff: "(andThen m f = Inr y) = (\<exists>x. m = Inr x \<and> f x = Inr y)"
  by (cases m) (simp_all add: andThen_def)

lemma andThen_Inl [simp]: "andThen (Inl e) f = Inl e"
  by (simp add: andThen_def)

lemma andThen_Inr [simp]: "andThen (Inr x) f = f x"
  by (simp add: andThen_def)

lemma Split_without_sep: "\<not> sublist sep s \<Longrightarrow> Split s sep = [s]"
proof (induction s)
  case Nil
  show ?case by simp
next
  case (Cons c s)
  from Cons.prems have np: "\<not> prefix sep (c # s)"
    by (simp add: sublist_Cons_right)
  from Cons.prems have "\<not> sublist sep s"
    by (simp add: sublist_Cons_right)
  with Cons.IH have "Split s sep = [s]" by simp
  with np show ?case
    by (simp only: Split.simps Let_def list.sel simp_thms if_False)
qed

lemma no_char_no_sublist: "c \<notin> set s \<Longrightarrow> \<not> sublist [c] s"
  using set_mono_sublist [of "[c]" s] by auto

lemma Split_char: "c \<notin> set l \<Longrightarrow> c \<notin> set p \<Longrightarrow> Split (l @ c # p) [c] = [l, p]"
proof (induction l)
  case Nil
  then show ?case by (simp add: Split_without_sep no_char_no_sublist)
next
  case (Cons x l)
  then show ?case by simp
qed

subsection \<open>The status field\<close>

lemma parseLsof_closed_example:
  "parseLsof (\<lambda>_. Inr []) closed_raw default_settings =
     Inr [\<lparr>id_proc = 1, name = ''nc'', directory = [],
            connections = [\<lparr>protocol = ''TCP'', status = ''CLOSED'', remotePort = [],
              remoteAddress = [], localPort = ''8080'', localAddress = ''127.0.0.1''\<rparr>],
            username = ''root''\<rparr>] \<and>
   parseLsof (\<lambda>_. Inr []) closed_raw (default_settings\<lparr>showClosed := True\<rparr>) = Inr []"
  by code_simp

text \<open>
  C1. What the source does with a status line \<^verbatim>\<open>TST=s\<close>: the status becomes \<open>s\<close>, and the
  connection stays valid unless \<open>s\<close> is \<^verbatim>\<open>CLOSED\<close> and \<open>showClosed\<close> is set, or
  \<open>listenOnly\<close> is set and \<open>s\<close> is not \<^verbatim>\<open>LISTEN\<close>. The listening rule is the one of
  the claim. The closed rule is the opposite of it: a closed connection is dropped when
  "show closed" is enabled and kept when it is disabled (\<open>parseLsof_closed_example\<close>
  runs the whole parser on such a text).
\<close>

theorem parseProperty_status:
  "parseProperty options (''TST='' @ s) (valid, c) =
     Inr (valid \<and> \<not> (s = ''CLOSED'' \<and> showClosed options) \<and>
                  \<not> (listenOnly options \<and> s \<noteq> ''LISTEN''),
          c\<lparr>status := s\<rparr>)"
  by (simp add: parseProperty_def parseStatus_def slice_def slice_from_def Let_def)

theorem parseProperty_status_witness:
  "showClosed default_settings = False \<and>
   parseProperty default_settings ''TST=CLOSED'' (True, connection0) =
     Inr (True, connection0\<lparr>status := ''CLOSED''\<rparr>)"
  using parseProperty_status [of default_settings "''CLOSED''" True connection0]
  by (simp add: default_settings_def)

subsection \<open>Exit statuses of lsof\<close>

lemma checkProcesses_ErrMsg_iff:
  "(checkProcesses (Inl e) run ToTitle settingsInfo = Inr (ErrMsg e')) =
     (cmd_Error e = ''1'' \<and> e' = CmdError e)"
  by (auto simp: checkProcesses_def getLsof_def)

text \<open>
  C2. Whatever nonzero status \<^verbatim>\<open>lsof\<close> exits with, \<open>checkProcesses\<close> delivers the empty
  list of processes and no error: the text of the error is \<^verbatim>\<open>exit status N\<close>, never
  \<^verbatim>\<open>1\<close>, and the test of line 197 is negated. So status 1 gives the empty list, as the
  claim says, and so does every other status, which the claim says is an error
  (by \<open>checkProcesses_ErrMsg_iff\<close> an error message needs an error whose text is \<^verbatim>\<open>1\<close>).
\<close>

theorem checkProcesses_exit_status:
  "checkProcesses (Inl (ExitError code)) run ToTitle settingsInfo = Inr (ProcessesMsg [] [] [])"
  by (simp add: checkProcesses_def getLsof_def)

theorem checkProcesses_exit_status_witness:
  "checkProcesses (Inl (ExitError 2)) (\<lambda>_. Inr []) (\<lambda>t. t) default_settings
     = Inr (ProcessesMsg [] [] [])"
  using checkProcesses_exit_status [of 2 "\<lambda>_. Inr []" "\<lambda>t. t" default_settings] by simp

subsection \<open>The terminate key\<close>

lemma terminateLoop_selects:
  "i \<le> nat cur \<Longrightarrow>
   terminateLoop i cur ps =
     (if nat cur < length ps then TerminateProcess (id_proc (ps ! nat cur)) else NoCmd)"
proof (induction i cur ps rule: terminateLoop.induct)
  case (1 i cur ps)
  show ?case
  proof (cases "i < length ps")
    case False
    with "1.prems" show ?thesis by (simp add: terminateLoop.simps [of i])
  next
    case True
    show ?thesis
    proof (cases "int i \<ge> cur")
      case True
      with "1.prems" have "nat cur = i" by simp
      with True \<open>i < length ps\<close> show ?thesis by (simp add: terminateLoop.simps [of i])
    next
      case False
      with "1.prems" have "i + 1 \<le> nat cur" by simp
      with "1.IH" [OF \<open>i < length ps\<close> False] False \<open>i < length ps\<close>
      show ?thesis by (simp add: terminateLoop.simps [of i])
    qed
  qed
qed

lemma formatLsof_two_processes:
  "snd (formatLsof T two_processes options) = [0, 2]"
  by (simp add: formatLsof_def two_processes_def)

lemma loaded_model_fields:
  "m_keys (loaded_model s cur) = keys"
  "processes (loaded_model s cur) = two_processes"
  "rowStarts (loaded_model s cur) = [0, 2]"
  "cursor (table (loaded_model s cur)) = cur"
  "settings (loaded_model s cur) = s"
  using formatLsof_two_processes [of "\<lambda>t. t" s]
  by (cases "formatLsof (\<lambda>t. t) two_processes s";
      simp add: loaded_model_def Update_def model0_def SetRows_def)+

text \<open>
  C3. On the terminate key the source takes the cursor as an index into the list of
  processes: it terminates the process at position \<open>cursor\<close>, and does nothing when the
  cursor is beyond the last position. The row-block starts are not read. With one row
  per process this is the process of the selected row, as the claim says; as soon as a
  process has two rows it is not: in the witness the cursor is on row 1, which lies in
  the block of the first process (rows 0 and 1, PID 10), and the command terminates
  PID 20.
\<close>

theorem Update_terminate_by_index:
  "m_keys m = keys \<Longrightarrow>
   Update tableUpdate m (KeyMsg ''t'') =
     (m, if nat (cursor (table m)) < length (processes m)
         then TerminateProcess (id_proc (processes m ! nat (cursor (table m)))) else NoCmd)"
  by (simp add: Update_def Matches_def keys_def terminateLoop_selects)

theorem Update_terminate_by_index_witness:
  "m_keys (loaded_model default_settings 1) = keys \<and>
   processes (loaded_model default_settings 1) = two_processes \<and>
   rowStarts (loaded_model default_settings 1) = [0, 2] \<and>
   cursor (table (loaded_model default_settings 1)) = 1 \<and>
   id_proc (two_processes ! 0) = 10 \<and>
   Update (\<lambda>_ t. (t, NoCmd)) (loaded_model default_settings 1) (KeyMsg ''t'')
     = (loaded_model default_settings 1, TerminateProcess 20)"
  using Update_terminate_by_index [of "loaded_model default_settings 1" "\<lambda>_ t. (t, NoCmd)"]
  by (simp add: loaded_model_fields) (simp add: two_processes_def)

text \<open>
  C4. \<open>Update\<close> never reads \<open>readOnly\<close>: with read-only mode set, the terminate key
  still returns the command that terminates the process at the cursor's position. The
  claim says that no termination command is produced.
\<close>

theorem Update_terminate_readOnly:
  "readOnly (settings m) \<Longrightarrow> m_keys m = keys \<Longrightarrow>
   nat (cursor (table m)) < length (processes m) \<Longrightarrow>
   Update tableUpdate m (KeyMsg ''t'') =
     (m, TerminateProcess (id_proc (processes m ! nat (cursor (table m)))))"
  by (auto simp: Update_def Matches_def keys_def terminateLoop_selects)

theorem Update_terminate_readOnly_witness:
  "readOnly (settings (loaded_model (default_settings\<lparr>readOnly := True\<rparr>) 0)) \<and>
   Update (\<lambda>_ t. (t, NoCmd)) (loaded_model (default_settings\<lparr>readOnly := True\<rparr>) 0) (KeyMsg ''t'')
     = (loaded_model (default_settings\<lparr>readOnly := True\<rparr>) 0, TerminateProcess 10)"
  using Update_terminate_readOnly [of "loaded_model (default_settings\<lparr>readOnly := True\<rparr>) 0"
          "\<lambda>_ t. (t, NoCmd)"]
  by (simp add: loaded_model_fields) (simp add: two_processes_def)

subsection \<open>The working directory\<close>

lemma getCwd_with_marker_example:
  "getCwd (\<lambda>_. Inr (''p42'' @ [NL] @ ''fcwd'' @ [NL] @ ''n/home/ally'' @ [NL] @ ''ftxt'')) 42
     = Inr ''/home/ally''"
  by code_simp

text \<open>
  C5. When the output of the per-PID lookup does not contain the marker
  (\<^verbatim>\<open>fcwd\<close>, a newline, \<^verbatim>\<open>n\<close>), \<open>Split\<close> returns one piece, the test
  \<^verbatim>\<open>len(cwdSplit) < 1\<close> is false and \<^verbatim>\<open>cwdSplit[1]\<close> is out of range: \<open>getCwd\<close> panics.
  The claim says that it returns the empty string and no error.
\<close>

theorem getCwd_without_marker:
  "run (Itoa pid) = Inr out \<Longrightarrow> \<not> sublist (''fcwd'' @ [NL] @ ''n'') out \<Longrightarrow>
   getCwd run pid = Inl Panic"
  by (simp add: getCwd_def Split_without_sep index_def)

theorem getCwd_without_marker_witness:
  "\<not> sublist (''fcwd'' @ [NL] @ ''n'') no_cwd_output \<and>
   getCwd (\<lambda>_. Inr no_cwd_output) 42 = Inl Panic"
proof -
  have a: "\<not> sublist (''fcwd'' @ [NL] @ ''n'') no_cwd_output" by code_simp
  from getCwd_without_marker [of "\<lambda>_. Inr no_cwd_output" 42 no_cwd_output, OF _ a] a
  show ?thesis by simp
qed

subsection \<open>The empty text\<close>

text \<open>
  C6. On the empty text \<open>Split\<close> returns one empty block, whose first line is empty, and
  \<^verbatim>\<open>processInfo[0][1:]\<close> is out of range: \<open>parseLsof\<close> panics, for every configuration.
  The claim says that it returns the empty list and no error.
\<close>

theorem parseLsof_empty_text:
  "parseLsof run [] options = Inl Panic"
  by (simp add: parseLsof_def parseProcess_def stripFirst_def index_def slice_from_def)

theorem parseLsof_empty_text_witness:
  "parseLsof (\<lambda>_. Inr []) [] default_settings = Inl Panic"
  using parseLsof_empty_text [of "\<lambda>_. Inr []" default_settings] by simp

subsection \<open>Addresses without an arrow\<close>

lemma parseProperty_address_local_only:
  assumes "CHR '':'' \<notin> set l" and "CHR '':'' \<notin> set p"
    and "\<not> sublist ''->'' (l @ CHR '':'' # p)" and "l @ CHR '':'' # p \<noteq> ''*:*''"
  shows "parseProperty options (CHR ''n'' # l @ CHR '':'' # p) (valid, c) =
           Inr (portCheck options (c\<lparr>localAddress := l, localPort := p\<rparr>) valid,
                c\<lparr>localAddress := l, localPort := p\<rparr>)"
proof -
  from assms(1,2) have c: "Split (l @ CHR '':'' # p) '':'' = [l, p]"
    by (rule Split_char)
  from assms(3) have a: "Split (l @ CHR '':'' # p) ''->'' = [l @ CHR '':'' # p]"
    by (rule Split_without_sep)
  show ?thesis
    using assms(4)
    by (simp add: parseProperty_def parseAddress_def slice_from_def index_def a c)
qed

lemma parseLsof_no_port_example:
  "parseLsof (\<lambda>_. Inr []) no_port_raw default_settings = Inl Panic"
  by code_simp

text \<open>
  C7. An address line with no arrow and no \<^verbatim>\<open>:port\<close> part makes the parser panic: the
  text is split at \<^verbatim>\<open>:\<close> into one piece and the source reads the second. The claim
  says that the parse completes with the local address set. With the \<^verbatim>\<open>:port\<close> part
  present the source does what the claim says (\<open>parseProperty_address_local_only\<close>).
\<close>

theorem parseProperty_address_without_port:
  assumes "CHR '':'' \<notin> set addr" and "\<not> sublist ''->'' addr"
  shows "parseProperty options (CHR ''n'' # addr) st = Inl Panic"
proof -
  from assms(1) have ns: "addr \<noteq> ''*:*''" by auto
  from assms(1) have c: "Split addr '':'' = [addr]"
    by (simp add: Split_without_sep no_char_no_sublist)
  from assms(2) have a: "Split addr ''->'' = [addr]"
    by (simp add: Split_without_sep)
  show ?thesis
    by (cases st) (simp add: parseProperty_def parseAddress_def slice_from_def index_def ns a c)
qed

theorem parseProperty_address_without_port_witness:
  "CHR '':'' \<notin> set ''localhost'' \<and> \<not> sublist ''->'' ''localhost'' \<and>
   parseProperty default_settings ''nlocalhost'' (True, connection0) = Inl Panic"
proof -
  have a: "CHR '':'' \<notin> set ''localhost''" by simp
  have b: "\<not> sublist ''->'' ''localhost''" by code_simp
  from parseProperty_address_without_port [OF a b, of default_settings "(True, connection0)"] a b
  show ?thesis by simp
qed

subsection \<open>The port filter\<close>

lemma parseProperty_keeps_port:
  assumes "parseProperty options l st = Inr st'"
    and "fst st \<longrightarrow> portAllowed options (snd st)"
    and "portFilter options \<noteq> []"
  shows "fst st' \<longrightarrow> portAllowed options (snd st')"
  using assms
  by (cases st)
     (auto simp: parseProperty_def parseAddress_def parseStatus_def portCheck_def portAllowed_def
        Contains_def andThen_Inr_iff Let_def split: if_splits)

lemma parseProperty_address_port:
  assumes "parseProperty options l st = Inr st'" and "isAddressLine l"
    and "portFilter options \<noteq> []"
  shows "fst st' \<longrightarrow> portAllowed options (snd st')"
  using assms
  by (cases st)
     (auto simp: parseProperty_def parseAddress_def isAddressLine_def portCheck_def
        portAllowed_def Contains_def andThen_Inr_iff Let_def split: if_splits)

lemma parseProperties_port:
  assumes "parseProperties options ls st = Inr st'"
    and "(fst st \<longrightarrow> portAllowed options (snd st)) \<or> list_ex isAddressLine ls"
    and "portFilter options \<noteq> []"
  shows "fst st' \<longrightarrow> portAllowed options (snd st')"
  using assms(1,2)
proof (induction ls arbitrary: st)
  case Nil
  then show ?case by simp
next
  case (Cons l ls)
  from Cons.prems(1) obtain st1 where one: "parseProperty options l st = Inr st1"
    and rest: "parseProperties options ls st1 = Inr st'"
    by (auto simp: andThen_Inr_iff)
  show ?case
  proof (cases "(fst st \<longrightarrow> portAllowed options (snd st)) \<or> isAddressLine l")
    case True
    then have "fst st1 \<longrightarrow> portAllowed options (snd st1)"
      using one assms(3) parseProperty_keeps_port parseProperty_address_port by blast
    with Cons.IH [OF rest] show ?thesis by blast
  next
    case False
    with Cons.prems(2) have "list_ex isAddressLine ls" by simp
    with Cons.IH [OF rest] show ?thesis by blast
  qed
qed

lemma parseConnection_port:
  "parseConnection options s = Inr r \<Longrightarrow> hasAddress s \<Longrightarrow> portFilter options \<noteq> [] \<Longrightarrow>
   fst r \<longrightarrow> portAllowed options (snd r)"
  unfolding parseConnection_def hasAddress_def
  using parseProperties_port by blast

lemma parseProperty_other_ports:
  "parseProperty options l st = Inr st' \<Longrightarrow> \<not> isAddressLine l \<Longrightarrow>
   localPort (snd st') = localPort (snd st) \<and> remotePort (snd st') = remotePort (snd st)"
  by (cases st)
     (auto simp: parseProperty_def parseStatus_def isAddressLine_def andThen_Inr_iff Let_def
        split: if_splits)

lemma parseProperties_other_ports:
  "parseProperties options ls st = Inr st' \<Longrightarrow> \<not> list_ex isAddressLine ls \<Longrightarrow>
   localPort (snd st') = localPort (snd st) \<and> remotePort (snd st') = remotePort (snd st)"
proof (induction ls arbitrary: st)
  case Nil
  then show ?case by simp
next
  case (Cons l ls)
  from Cons.prems(1) obtain st1 where one: "parseProperty options l st = Inr st1"
    and rest: "parseProperties options ls st1 = Inr st'"
    by (auto simp: andThen_Inr_iff)
  from Cons.prems(2) have l: "\<not> isAddressLine l" and ls: "\<not> list_ex isAddressLine ls"
    by simp_all
  from parseProperty_other_ports [OF one l] Cons.IH [OF rest ls] show ?case by simp
qed

lemma parseConnection_without_address:
  "parseConnection options s = Inr r \<Longrightarrow> \<not> hasAddress s \<Longrightarrow>
   localPort (snd r) = [] \<and> remotePort (snd r) = []"
  unfolding parseConnection_def hasAddress_def
  using parseProperties_other_ports [of options "Split s [NL]" "(True, connection0)" r]
  by (simp add: connection0_def)

lemma parseConnections_port:
  assumes "parseConnections options ss acc = Inr cs" and "set ss \<subseteq> set segments"
    and "\<forall>c\<in>set acc. portAllowed options c \<or> untested options segments c"
    and "portFilter options \<noteq> []"
  shows "\<forall>c\<in>set cs. portAllowed options c \<or> untested options segments c"
  using assms(1,2,3)
proof (induction ss arbitrary: acc)
  case Nil
  then show ?case by simp
next
  case (Cons s ss)
  from Cons.prems(1) obtain r where one: "parseConnection options s = Inr r"
    and rest: "parseConnections options ss (if fst r then acc @ [snd r] else acc) = Inr cs"
    by (auto simp: andThen_Inr_iff)
  from Cons.prems(2) have s: "s \<in> set segments" and tl: "set ss \<subseteq> set segments" by simp_all
  have "fst r \<longrightarrow> portAllowed options (snd r) \<or> untested options segments (snd r)"
  proof (cases "hasAddress s")
    case True
    with one assms(4) show ?thesis using parseConnection_port by blast
  next
    case False
    show ?thesis
    proof
      assume "fst r"
      with one have "parseConnection options s = Inr (True, snd r)"
        by (cases r) simp
      with False s have "untested options segments (snd r)"
        by (auto simp: untested_def list_ex_iff)
      then show "portAllowed options (snd r) \<or> untested options segments (snd r)" ..
    qed
  qed
  with Cons.prems(3)
  have "\<forall>c\<in>set (if fst r then acc @ [snd r] else acc).
          portAllowed options c \<or> untested options segments c"
    by simp
  with Cons.IH [OF rest tl] show ?case by blast
qed

lemma buildProcess_port:
  assumes "buildProcess options cs info pid cmd cwd = Inr (Some p)"
    and "set (drop 1 cs) \<subseteq> set segments" and "portFilter options \<noteq> []"
  shows "\<forall>c\<in>set (connections p). portAllowed options c \<or> untested options segments c"
proof -
  from assms(1) obtain segs conns where segs: "slice_from cs 1 = Inr segs"
    and conns: "parseConnections options segs [] = Inr conns" and p: "connections p = conns"
    by (auto simp: buildProcess_def andThen_Inr_iff split: if_splits)
  from segs have "segs = drop 1 cs"
    by (auto simp: slice_from_def split: if_splits)
  with assms(2) have "set segs \<subseteq> set segments" by simp
  with parseConnections_port [OF conns _ _ assms(3)] p show ?thesis by simp
qed

lemma parseProcess_port:
  assumes "parseProcess run options i s = Inr (Some p)"
    and "set (drop 1 (Split s [NL, CHR ''f''])) \<subseteq> set segments"
    and "portFilter options \<noteq> []"
  shows "\<forall>c\<in>set (connections p). portAllowed options c \<or> untested options segments c"
proof -
  from assms(1) obtain info pid cmd cwd where
    "buildProcess options (Split s [NL, CHR ''f'']) info pid cmd cwd = Inr (Some p)"
    by (auto simp: parseProcess_def Let_def andThen_Inr_iff split: if_splits)
  from buildProcess_port [OF this assms(2,3)] show ?thesis .
qed

lemma parseProcesses_port:
  assumes "parseProcesses run options i ss acc = Inr ps"
    and "\<forall>s\<in>set ss. set (drop 1 (Split s [NL, CHR ''f''])) \<subseteq> set segments"
    and "\<forall>p\<in>set acc. \<forall>c\<in>set (connections p).
           portAllowed options c \<or> untested options segments c"
    and "portFilter options \<noteq> []"
  shows "\<forall>p\<in>set ps. \<forall>c\<in>set (connections p).
           portAllowed options c \<or> untested options segments c"
  using assms(1,2,3)
proof (induction ss arbitrary: i acc)
  case Nil
  then show ?case by simp
next
  case (Cons s ss)
  from Cons.prems(1) obtain r where one: "parseProcess run options i s = Inr r"
    and rest: "parseProcesses run options (i + 1) ss
                 (case r of None \<Rightarrow> acc | Some p \<Rightarrow> acc @ [p]) = Inr ps"
    by (auto simp: andThen_Inr_iff)
  from Cons.prems(2) have hd: "set (drop 1 (Split s [NL, CHR ''f''])) \<subseteq> set segments"
    and tl: "\<forall>s\<in>set ss. set (drop 1 (Split s [NL, CHR ''f''])) \<subseteq> set segments"
    by simp_all
  have "\<forall>p\<in>set (case r of None \<Rightarrow> acc | Some p \<Rightarrow> acc @ [p]).
          \<forall>c\<in>set (connections p). portAllowed options c \<or> untested options segments c"
  proof (cases r)
    case None
    with Cons.prems(3) show ?thesis by simp
  next
    case (Some p)
    with one parseProcess_port [OF _ hd assms(4)]
    have "\<forall>c\<in>set (connections p). portAllowed options c \<or> untested options segments c"
      by blast
    with Some Cons.prems(3) show ?thesis by simp
  qed
  with Cons.IH [OF rest tl] show ?case by blast
qed

lemma port_allowed_or_untested:
  assumes "parseLsof run raw options = Inr ps" and "portFilter options \<noteq> []"
  shows "\<forall>p\<in>set ps. \<forall>c\<in>set (connections p).
           portAllowed options c \<or> untested options (connectionStrings raw) c"
proof -
  have "\<forall>s\<in>set (Split raw [NL, CHR ''p'']).
          set (drop 1 (Split s [NL, CHR ''f''])) \<subseteq> set (connectionStrings raw)"
    by (auto simp: connectionStrings_def)
  with assms(1) parseProcesses_port [OF _ _ _ assms(2)] show ?thesis
    by (simp add: parseLsof_def)
qed

lemma untested_ports:
  "untested options segments c \<Longrightarrow> localPort c = [] \<and> remotePort c = []"
  using parseConnection_without_address [of options _ "(True, c)"]
  by (auto simp: untested_def list_ex_iff)

lemma port_allowed_in_result:
  assumes "parseLsof run raw options = Inr ps" and "list_all hasAddress (connectionStrings raw)"
    and "portFilter options \<noteq> []" and "p \<in> set ps" and "c \<in> set (connections p)"
  shows "portAllowed options c"
proof -
  from assms(2) have "\<not> untested options (connectionStrings raw) c"
    by (auto simp: untested_def list_ex_iff list_all_iff)
  with port_allowed_or_untested [OF assms(1,3)] assms(4,5) show ?thesis by blast
qed

lemma parseAddress_no_filter:
  "portFilter options = [] \<Longrightarrow> addr \<noteq> ''*:*'' \<Longrightarrow>
   parseAddress options addr (valid, c) = Inr (valid', c') \<Longrightarrow> valid' = valid"
  by (auto simp: parseAddress_def portCheck_def andThen_Inr_iff Let_def split: if_splits)

text \<open>
  C8, as stated, fails: the port filter is applied where an address line is parsed, so
  a connection segment with no address line is never tested, and its connection, whose
  ports are empty, is in the result whatever the allow-list holds.
\<close>

theorem parseLsof_port_filter_counterexample:
  "portFilter (default_settings\<lparr>portFilter := [''80'']\<rparr>) \<noteq> [] \<and>
   parseLsof (\<lambda>_. Inr []) no_address_raw (default_settings\<lparr>portFilter := [''80'']\<rparr>)
     = Inr [\<lparr>id_proc = 1, name = ''nc'', directory = [],
              connections = [connection0\<lparr>protocol := ''TCP''\<rparr>], username = ''root''\<rparr>] \<and>
   localPort (connection0\<lparr>protocol := ''TCP''\<rparr>) \<notin> set [''80''] \<and>
   remotePort (connection0\<lparr>protocol := ''TCP''\<rparr>) \<notin> set [''80'']"
  by code_simp

text \<open>
  C8, amended. With a non-empty port allow-list, every connection in the result of
  \<open>parseLsof\<close> has its local port or its remote port in the allow-list, or it is the
  connection of a segment of the raw text that has no address line, and then both its
  ports are empty. With an empty allow-list, parsing an address other than the \<^verbatim>\<open>*:*\<close>
  sentinel leaves the validity of the connection as it was: the port filter rejects
  nothing. (When every segment has an address line the first part is the claim as it
  was stated: \<open>port_allowed_in_result\<close>.)
\<close>

theorem parseLsof_port_filter:
  "(portFilter options \<noteq> [] \<and> parseLsof run raw options = Inr ps \<and> p \<in> set ps \<and>
      c \<in> set (connections p)
    \<longrightarrow> (localPort c \<in> set (portFilter options) \<or> remotePort c \<in> set (portFilter options)) \<or>
        (untested options (connectionStrings raw) c \<and> localPort c = [] \<and> remotePort c = []))
   \<and> (portFilter options = [] \<and> addr \<noteq> ''*:*'' \<and>
          parseAddress options addr (valid, tmp) = Inr (valid', tmp')
        \<longrightarrow> valid' = valid)"
  using port_allowed_or_untested [of run raw options ps]
    untested_ports [of options "connectionStrings raw" c]
    parseAddress_no_filter [of options addr valid tmp valid' tmp']
  by (auto simp: portAllowed_def)

theorem parseLsof_port_filter_witness:
  "portFilter (default_settings\<lparr>portFilter := [''22'']\<rparr>) \<noteq> [] \<and>
   parseLsof (\<lambda>_. Inr []) example_raw (default_settings\<lparr>portFilter := [''22'']\<rparr>)
     = Inr [example_process] \<and>
   localPort (hd (connections example_process)) \<noteq> [] \<and>
   (localPort (hd (connections example_process)) \<in> set [''22''] \<or>
    remotePort (hd (connections example_process)) \<in> set [''22'']) \<and>
   portFilter default_settings = [] \<and>
   parseAddress default_settings ''*:22'' (True, connection0)
     = Inr (True, connection0\<lparr>localAddress := ''*'', localPort := ''22''\<rparr>)"
proof -
  have a: "localPort (hd (connections example_process)) \<noteq> []"
    by (simp add: example_process_def)
  have b: "parseLsof (\<lambda>_. Inr []) example_raw (default_settings\<lparr>portFilter := [''22'']\<rparr>)
             = Inr [example_process]" by code_simp
  have c: "parseAddress default_settings ''*:22'' (True, connection0)
             = Inr (True, connection0\<lparr>localAddress := ''*'', localPort := ''22''\<rparr>)" by code_simp
  have d: "hd (connections example_process) \<in> set (connections example_process)"
    by (simp add: example_process_def)
  from parseLsof_port_filter [of "default_settings\<lparr>portFilter := [''22'']\<rparr>" "\<lambda>_. Inr []"
      example_raw "[example_process]" example_process "hd (connections example_process)"] a b d
  have "localPort (hd (connections example_process)) \<in> set [''22''] \<or>
        remotePort (hd (connections example_process)) \<in> set [''22'']"
    by simp
  with a b c show ?thesis by (simp add: default_settings_def)
qed

subsection \<open>The connection list of a parsed process\<close>

lemma buildProcess_connections:
  "buildProcess options cs info pid cmd cwd = Inr (Some p) \<Longrightarrow> connections p \<noteq> []"
  by (auto simp: buildProcess_def andThen_Inr_iff split: if_splits)

lemma parseProcess_connections:
  "parseProcess run options i s = Inr (Some p) \<Longrightarrow> connections p \<noteq> []"
  by (auto simp: parseProcess_def Let_def andThen_Inr_iff
        dest: buildProcess_connections split: if_splits)

lemma parseProcesses_connections:
  "parseProcesses run options i ss acc = Inr ps \<Longrightarrow> \<forall>p\<in>set acc. connections p \<noteq> []
     \<Longrightarrow> \<forall>p\<in>set ps. connections p \<noteq> []"
proof (induction ss arbitrary: i acc)
  case Nil
  then show ?case by simp
next
  case (Cons s ss)
  from Cons.prems(1) obtain r where r: "parseProcess run options i s = Inr r"
    and rest: "parseProcesses run options (i + 1) ss
                 (case r of None \<Rightarrow> acc | Some p \<Rightarrow> acc @ [p]) = Inr ps"
    by (auto simp: andThen_Inr_iff)
  have "\<forall>p\<in>set (case r of None \<Rightarrow> acc | Some p \<Rightarrow> acc @ [p]). connections p \<noteq> []"
    using Cons.prems(2) r by (cases r) (auto dest: parseProcess_connections)
  with Cons.IH rest show ?case by blast
qed

lemma parseLsof_example:
  "parseLsof (\<lambda>_. Inr []) example_raw default_settings = Inr [example_process]"
  by code_simp

lemma parseLsof_listenOnly_example:
  "parseLsof (\<lambda>_. Inr []) example_raw (default_settings\<lparr>listenOnly := True\<rparr>) = Inr []"
  by code_simp

text \<open>
  C9. Every process in the result of \<open>parseLsof\<close> has at least one connection: a process
  whose connections were all filtered out, or that had none, is not in the result.
\<close>

theorem parseLsof_connections_nonempty:
  "parseLsof run raw options = Inr ps \<Longrightarrow> p \<in> set ps \<Longrightarrow> 1 \<le> length (connections p)"
  using parseProcesses_connections [of run options 0 "Split raw [NL, CHR ''p'']" "[]" ps]
  by (cases "connections p") (auto simp: parseLsof_def)

theorem parseLsof_connections_nonempty_witness:
  "parseLsof (\<lambda>_. Inr []) example_raw default_settings = Inr [example_process] \<and>
   1 \<le> length (connections example_process)"
  using parseLsof_connections_nonempty [OF parseLsof_example, of example_process]
  by (simp add: parseLsof_example)

subsection \<open>The row-block starts of formatLsof\<close>

lemma formatConnections_length:
  "length (formatConnections T cols proc k cs rs) = length rs + length cs"
  by (induction cs arbitrary: k rs) auto

lemma formatProcesses_rows:
  "length (fst (formatProcesses T cols ps rs starts)) = length rs + rowsBefore ps (length ps)"
  by (induction ps arbitrary: rs starts) (auto simp: rowsBefore_def formatConnections_length)

lemma formatProcesses_starts:
  "snd (formatProcesses T cols ps rs starts) =
     starts @ map (\<lambda>i. int (length rs + rowsBefore ps i)) [0..<length ps]"
proof (induction ps arbitrary: rs starts)
  case Nil
  show ?case by simp
next
  case (Cons p ps)
  have "map (\<lambda>i. int (length rs + rowsBefore (p # ps) i)) [0..<length (p # ps)] =
        int (length rs) #
        map (\<lambda>i. int (length rs + length (connections p) + rowsBefore ps i)) [0..<length ps]"
    by (simp add: upt_conv_Cons map_Suc_upt [symmetric] rowsBefore_def del: upt_Suc)
  then show ?case
    by (simp add: Cons.IH formatConnections_length)
qed

lemma rowsBefore_Suc:
  "i < length ps \<Longrightarrow> rowsBefore ps (Suc i) = rowsBefore ps i + length (connections (ps ! i))"
  by (simp add: rowsBefore_def take_Suc_conv_app_nth)

lemma rowsBefore_less:
  assumes ne: "\<forall>p\<in>set ps. connections p \<noteq> []" and "i < j" and "j \<le> length ps"
  shows "rowsBefore ps i < rowsBefore ps j"
  using assms(2,3)
proof (induction j)
  case 0
  then show ?case by simp
next
  case (Suc j)
  from Suc.prems have j: "j < length ps" by simp
  with ne have "0 < length (connections (ps ! j))" by simp
  with j have step: "rowsBefore ps j < rowsBefore ps (Suc j)"
    by (simp add: rowsBefore_Suc)
  show ?case
  proof (cases "i = j")
    case True
    with step show ?thesis by simp
  next
    case False
    with Suc.prems have "i < j" by simp
    with Suc.IH j have "rowsBefore ps i < rowsBefore ps j" by simp
    with step show ?thesis by simp
  qed
qed

text \<open>
  C10. When every process has at least one connection, \<open>formatLsof\<close> returns one row-block
  start per process, the start of process \<open>i\<close> is the number of rows of the processes
  before it (one row per connection), and the starts are strictly increasing; this holds
  for every list of columns.
\<close>

theorem formatLsof_rowStarts:
  assumes "\<forall>p\<in>set ps. connections p \<noteq> []"
  shows "length (snd (formatLsof T ps options)) = length ps \<and>
         length (fst (formatLsof T ps options)) = rowsBefore ps (length ps) \<and>
         (\<forall>i<length ps. snd (formatLsof T ps options) ! i = int (rowsBefore ps i)) \<and>
         (\<forall>i j. i < j \<and> j < length ps \<longrightarrow>
            snd (formatLsof T ps options) ! i < snd (formatLsof T ps options) ! j)"
proof -
  have starts: "snd (formatLsof T ps options) = map (\<lambda>i. int (rowsBefore ps i)) [0..<length ps]"
    by (simp add: formatLsof_def formatProcesses_starts)
  have rs: "length (fst (formatLsof T ps options)) = rowsBefore ps (length ps)"
    by (simp add: formatLsof_def formatProcesses_rows)
  have incr: "rowsBefore ps i < rowsBefore ps j" if "i < j" "j < length ps" for i j
    using rowsBefore_less [OF assms, of i j] that by simp
  show ?thesis
    using rs incr by (simp add: starts)
qed

theorem formatLsof_rowStarts_witness:
  "list_all (\<lambda>p. connections p \<noteq> []) two_processes \<and>
   length (snd (formatLsof (\<lambda>t. t) two_processes default_settings)) = 2 \<and>
   length (fst (formatLsof (\<lambda>t. t) two_processes default_settings)) = 3 \<and>
   snd (formatLsof (\<lambda>t. t) two_processes default_settings) ! 1 = 2 \<and>
   snd (formatLsof (\<lambda>t. t) two_processes default_settings) ! 0 <
     snd (formatLsof (\<lambda>t. t) two_processes default_settings) ! 1"
proof -
  have ne: "\<forall>p\<in>set two_processes. connections p \<noteq> []"
    by (simp add: two_processes_def listening_def)
  have len: "length two_processes = 2" and r1: "rowsBefore two_processes 1 = 2"
    and r2: "rowsBefore two_processes 2 = 3" and r0: "rowsBefore two_processes 0 = 0"
    by (simp_all add: two_processes_def rowsBefore_def)
  from formatLsof_rowStarts [OF ne, of "\<lambda>t. t" default_settings] ne len r0 r1 r2
  show ?thesis
    by (simp add: list_all_iff)
qed

end
